theory Spec2Isabelle
  imports Complex_Main
begin

section \<open>The TCGA to FHIR converter\<close>

text \<open>
  A shallow embedding of \<^verbatim>\<open>converter.py\<close>: one input row of the tab-separated
  clinical data file becomes a FHIR transaction bundle holding a Patient, a
  ResearchSubject, a Condition and, for rows with radio therapy, a Procedure.

  A Python \<^verbatim>\<open>str\<close> is a \<open>string\<close> here, each \<open>char\<close> standing for one code point
  below 256. That covers the data file, which is ASCII, and the German labels of the
  ICD-10 codes, whose umlauts are written \<open>CHR 0xE4\<close>, \<open>CHR 0xF6\<close> and \<open>CHR 0xFC\<close>.
\<close>

subsection \<open>Exceptions\<close>

datatype error = IndexError | KeyError | ValueError

definition py_bind :: "error + 'a \<Rightarrow> ('a \<Rightarrow> error + 'b) \<Rightarrow> error + 'b" where
  "py_bind r f = (case r of Inl e \<Rightarrow> Inl e | Inr x \<Rightarrow> f x)"

text \<open>\<^verbatim>\<open>xs[i]\<close> for a literal index \<open>i \<ge> 0\<close>: out of range raises \<open>IndexError\<close>.\<close>

definition py_index :: "'a list \<Rightarrow> nat \<Rightarrow> error + 'a" where
  "py_index xs i = (if i < length xs then Inr (xs ! i) else Inl IndexError)"

text \<open>\<^verbatim>\<open>d[k]\<close> on a dict: a missing key raises \<open>KeyError\<close>.\<close>

definition py_getitem :: "('k \<rightharpoonup> 'v) \<Rightarrow> 'k \<Rightarrow> error + 'v" where
  "py_getitem d k = (case d k of None \<Rightarrow> Inl KeyError | Some v \<Rightarrow> Inr v)"

subsection \<open>The string methods of Python that the converter calls\<close>

text \<open>
  \<^verbatim>\<open>str.lower()\<close> on code points below 256: the letters A to Z and the Latin-1
  capitals U+00C0 to U+00DE (the multiplication sign U+00D7 apart) move up by 32,
  every other code point stays.
\<close>

definition lower_char :: "char \<Rightarrow> char" where
  "lower_char c =
     (let n = (of_char c :: nat)
      in if (65 \<le> n \<and> n \<le> 90) \<or> (192 \<le> n \<and> n \<le> 222 \<and> n \<noteq> 215)
         then char_of (n + 32) else c)"

definition lower :: "string \<Rightarrow> string" where
  "lower s = map lower_char s"

text \<open>\<^verbatim>\<open>line.split("\t")\<close>: the fields between the tabs, at least one, empty ones kept.\<close>

fun split_tab :: "string \<Rightarrow> string list" where
  "split_tab [] = [[]]"
| "split_tab (c # cs) =
     (if c = CHR 0x09 then [] # split_tab cs
      else (case split_tab cs of
              [] \<Rightarrow> [[c]]
            | f # fs \<Rightarrow> (c # f) # fs))"

subsection \<open>The builtin \<^verbatim>\<open>float\<close> on a string\<close>

text \<open>
  The result of \<^verbatim>\<open>float(s)\<close> is a binary64 value: a finite number (a rational),
  the negative zero, an infinity or a NaN.
\<close>

datatype pyfloat = Finite rat | NegZero | PosInf | NegInf | NaN

definition is_digit :: "char \<Rightarrow> bool" where
  "is_digit c = (48 \<le> (of_char c :: nat) \<and> (of_char c :: nat) \<le> 57)"

definition digit_val :: "char \<Rightarrow> nat" where
  "digit_val c = (of_char c :: nat) - 48"

text \<open>The ASCII white space that \<^verbatim>\<open>float\<close> strips: space, and \<^verbatim>\<open>\t \n \v \f \r\<close>.\<close>

definition is_space :: "char \<Rightarrow> bool" where
  "is_space c = ((of_char c :: nat) = 32 \<or> (9 \<le> (of_char c :: nat) \<and> (of_char c :: nat) \<le> 13))"

text \<open>
  Before parsing, the two white space code points between 128 and 255 (U+0085 and
  U+00A0) are turned into a space. Every other code point from 127 on is no part of a
  number, and the parser below rejects it like any other stray character.
\<close>

definition space_to_ascii :: "char \<Rightarrow> char" where
  "space_to_ascii c = (if (of_char c :: nat) = 133 \<or> (of_char c :: nat) = 160 then CHR '' '' else c)"

definition strip :: "string \<Rightarrow> string" where
  "strip s = rev (dropWhile is_space (rev (dropWhile is_space s)))"

text \<open>
  Underscores group digits: each must stand between two digits. The first argument
  is the previous character (NUL at the start); the result is the string without its
  underscores, or \<open>None\<close> for a misplaced one.
\<close>

fun drop_underscores :: "char \<Rightarrow> string \<Rightarrow> string option" where
  "drop_underscores prev [] = (if prev = CHR ''_'' then None else Some [])"
| "drop_underscores prev (c # cs) =
     (if c = CHR ''_''
      then (if is_digit prev then drop_underscores c cs else None)
      else (if prev = CHR ''_'' \<and> \<not> is_digit c then None
            else map_option ((#) c) (drop_underscores c cs)))"

text \<open>The value of a string of decimal digits, most significant first.\<close>

definition decimal :: "string \<Rightarrow> int" where
  "decimal ds = foldl (\<lambda>n c. 10 * n + int (digit_val c)) 0 ds"

text \<open>Powers of two and of ten with an integer exponent.\<close>

definition pow_int :: "rat \<Rightarrow> int \<Rightarrow> rat" where
  "pow_int b e = (if 0 \<le> e then b ^ nat e else 1 / b ^ nat (- e))"

text \<open>The number of binary digits of a positive integer.\<close>

function bits :: "int \<Rightarrow> nat" where
  "bits n = (if n \<le> 0 then 0 else Suc (bits (n div 2)))"
  by pat_completeness auto
termination
  by (relation "measure nat") auto

declare bits.simps [simp del]

text \<open>For \<open>q > 0\<close>, the exponent \<open>e\<close> with \<open>2 ^ e \<le> q < 2 ^ (e + 1)\<close>.\<close>

definition binade :: "rat \<Rightarrow> int" where
  "binade q =
     (let (n, d) = quotient_of q;
          e = int (bits n) - int (bits d)
      in if pow_int 2 e \<le> q then e else e - 1)"

definition round_half_even :: "rat \<Rightarrow> int" where
  "round_half_even q =
     (let f = \<lfloor>q\<rfloor>; r = q - of_int f
      in if r < 1 / 2 then f
         else if 1 / 2 < r then f + 1
         else if even f then f else f + 1)"

text \<open>
  Rounding to the nearest binary64 value, ties to even: 53 significant bits, the
  exponent of the last place at least \<open>- 1074\<close>, and an infinity from \<open>2 ^ 1024\<close> on.
  \<open>neg\<close> is the sign of the literal and \<open>q \<ge> 0\<close> its magnitude.
\<close>

definition round_binary64 :: "bool \<Rightarrow> rat \<Rightarrow> pyfloat" where
  "round_binary64 neg q =
     (if q = 0 then (if neg then NegZero else Finite 0)
      else
        let e = max (binade q) (- 1022);
            ulp = pow_int 2 (e - 52);
            r = of_int (round_half_even (q / ulp)) * ulp
        in if pow_int 2 1024 \<le> r then (if neg then NegInf else PosInf)
           else if r = 0 then (if neg then NegZero else Finite 0)
           else Finite (if neg then - r else r))"

text \<open>
  The unsigned part of a literal: \<open>inf\<close>, \<open>infinity\<close> or \<open>nan\<close> in any case, or
  digits with an optional point and an optional exponent, at least one digit in the
  mantissa and in the exponent. Anything left over is a \<open>ValueError\<close>.
\<close>

definition parse_exponent :: "string \<Rightarrow> int option" where
  "parse_exponent s =
     (case s of
        [] \<Rightarrow> Some 0
      | c # cs \<Rightarrow>
          if c = CHR ''e'' \<or> c = CHR ''E'' then
            (let (neg, ds) =
                   (case cs of
                      [] \<Rightarrow> (False, [])
                    | d # ds' \<Rightarrow>
                        if d = CHR ''-'' then (True, ds')
                        else if d = CHR ''+'' then (False, ds')
                        else (False, cs))
             in if ds \<noteq> [] \<and> list_all is_digit ds
                then Some (if neg then - decimal ds else decimal ds)
                else None)
          else None)"

definition parse_number :: "string \<Rightarrow> rat option" where
  "parse_number s =
     (let ip = takeWhile is_digit s;
          r1 = dropWhile is_digit s;
          (fp, r2) =
            (case r1 of
               [] \<Rightarrow> ([], [])
             | c # cs \<Rightarrow>
                 if c = CHR ''.'' then (takeWhile is_digit cs, dropWhile is_digit cs)
                 else ([], r1))
      in if ip = [] \<and> fp = [] then None
         else (case parse_exponent r2 of
                 None \<Rightarrow> None
               | Some ex \<Rightarrow>
                   Some (of_int (decimal (ip @ fp)) * pow_int 10 (ex - int (length fp)))))"

definition parse_unsigned :: "bool \<Rightarrow> string \<Rightarrow> error + pyfloat" where
  "parse_unsigned neg s =
     (if lower s = ''inf'' \<or> lower s = ''infinity'' then Inr (if neg then NegInf else PosInf)
      else if lower s = ''nan'' then Inr NaN
      else (case parse_number s of
              None \<Rightarrow> Inl ValueError
            | Some q \<Rightarrow> Inr (round_binary64 neg q)))"

definition py_float :: "string \<Rightarrow> error + pyfloat" where
  "py_float s =
     (case drop_underscores (CHR 0x00) (strip (map space_to_ascii s)) of
        None \<Rightarrow> Inl ValueError
      | Some t \<Rightarrow>
          (case t of
             [] \<Rightarrow> Inl ValueError
           | c # cs \<Rightarrow>
               if c = CHR ''-'' then parse_unsigned True cs
               else if c = CHR ''+'' then parse_unsigned False cs
               else parse_unsigned False t))"

subsection \<open>The label of an ICD-10 code\<close>

text \<open>
  \<^verbatim>\<open>get_label\<close> is a \<^verbatim>\<open>match\<close> with eight cases and no default: for any other
  code the function ends without a \<^verbatim>\<open>return\<close>, and its value is \<^verbatim>\<open>None\<close>.
\<close>

definition label_prefix :: string where
  "label_prefix = ''B'' @ [CHR 0xF6] @ ''sartige Neubildung: ''"

definition get_label :: "string \<Rightarrow> string option" where
  "get_label icd_10_code =
     (if icd_10_code = ''C25.0'' then Some (label_prefix @ ''Pankreaskopf'')
      else if icd_10_code = ''C25.1'' then Some (label_prefix @ ''Pankreask'' @ [CHR 0xF6] @ ''rper'')
      else if icd_10_code = ''C25.2'' then Some (label_prefix @ ''Pankreasschwanz'')
      else if icd_10_code = ''C25.3'' then Some (label_prefix @ ''Ductus pancreaticus'')
      else if icd_10_code = ''C25.4''
        then Some (label_prefix @ ''Endokriner Dr'' @ [CHR 0xFC] @ ''senanteil des Pankreas'')
      else if icd_10_code = ''C25.7'' then Some (label_prefix @ ''Sonstige Teile des Pankreas'')
      else if icd_10_code = ''C25.8''
        then Some (label_prefix @ ''Pankreas, mehrere Teilbereiche '' @ [CHR 0xFC] @ ''berlappend'')
      else if icd_10_code = ''C25.9''
        then Some (label_prefix @ ''Pankreas, nicht n'' @ [CHR 0xE4] @ ''her bezeichnet'')
      else None)"

subsection \<open>The FHIR resources, with the fields the converter sets\<close>

record fhir_identifier =
  ident_system :: string
  ident_value :: string

record reference =
  reference :: string

record coding =
  coding_system :: string
  coding_code :: string
  coding_display :: "string option"

record codeable_concept =
  coding :: "coding list"

record age =
  age_value :: pyfloat
  age_unit :: string

record patient =
  pat_identifier :: "fhir_identifier list"
  pat_gender :: string
  deceasedBoolean :: bool
  pat_id :: string

record research_subject =
  rs_status :: string
  rs_subject :: reference
  rs_study :: reference
  rs_identifier :: "fhir_identifier list"
  rs_id :: string

record condition =
  clinicalStatus :: codeable_concept
  cond_subject :: reference
  onsetAge :: age
  cond_id :: string
  cond_code :: codeable_concept

record procedure =
  proc_status :: string
  proc_subject :: reference
  proc_id :: string
  proc_code :: codeable_concept

record research_study =
  study_status :: string
  study_identifier :: "fhir_identifier list"
  study_name :: string
  study_title :: string
  study_version :: string
  study_id :: string
  progressStatus :: "codeable_concept list"

datatype resource =
    PatientR patient
  | ResearchSubjectR research_subject
  | ConditionR condition
  | ProcedureR procedure

fun resource_type :: "resource \<Rightarrow> string" where
  "resource_type (PatientR _) = ''Patient''"
| "resource_type (ResearchSubjectR _) = ''ResearchSubject''"
| "resource_type (ConditionR _) = ''Condition''"
| "resource_type (ProcedureR _) = ''Procedure''"

record bundle_entry_request =
  req_url :: string
  req_method :: string
  ifNoneExist :: "string option"

record bundle_entry =
  resource :: resource
  request :: bundle_entry_request
  fullUrl :: string

record fhir_bundle =
  bundle_type :: string
  entry :: "bundle_entry list"

subsection \<open>Constants and module state\<close>

definition PATIENT_ID_SYSTEM :: string where
  "PATIENT_ID_SYSTEM = ''https://www.gmds.de/pk-nachwuchs/patient''"

definition STUDY_PATIENT_ID_SYSTEM :: string where
  "STUDY_PATIENT_ID_SYSTEM = ''https://www.cbioportal.org/patient''"

definition STUDY_ID_SYSTEM :: string where
  "STUDY_ID_SYSTEM = ''https://www.cbioportal.org/study''"

definition STUDY_ID_VALUE :: string where
  "STUDY_ID_VALUE = ''paad_tcga_pan_can_atlas_2018''"

text \<open>
  The module's globals: the four dicts from study subject id to generated id, and
  \<^verbatim>\<open>research_study_id\<close>, which the main block assigns before it calls anything.
  \<open>uuid4_calls\<close> counts the calls of \<^verbatim>\<open>uuid.uuid4()\<close> made so far; the functions
  below take the generator as \<open>uuid4\<close>, where \<open>uuid4 n\<close> is the string of the call
  number \<open>n\<close> of the run.
\<close>

record globals =
  research_study_id :: string
  patients_uuid :: "string \<rightharpoonup> string"
  research_subject_uuid :: "string \<rightharpoonup> string"
  condition_uuid :: "string \<rightharpoonup> string"
  procedure_uuid :: "string \<rightharpoonup> string"
  uuid4_calls :: nat

subsection \<open>The builders\<close>

definition create_research_study :: "globals \<Rightarrow> research_study" where
  "create_research_study g =
     \<lparr>study_status = ''active'',
      study_identifier =
        [\<lparr>ident_system = STUDY_ID_SYSTEM, ident_value = ''paad_tcga_pan_can_atlas_2018''\<rparr>],
      study_name = ''tcga_pancreatic_adenocarcinoma'',
      study_title = ''Pancreatic Adenocarcinoma (TCGA, PanCancer Atlas)'',
      study_version = ''1.0.0'',
      study_id = research_study_id g,
      progressStatus =
        [\<lparr>coding =
            [\<lparr>coding_system = ''http://hl7.org/fhir/research-study-status'',
              coding_code = ''completed'',
              coding_display = Some ''Completed''\<rparr>]\<rparr>]\<rparr>"

definition create_patient ::
  "(nat \<Rightarrow> string) \<Rightarrow> globals \<Rightarrow> string \<Rightarrow> string \<Rightarrow> string \<Rightarrow> bool
     \<Rightarrow> error + (patient \<times> globals)" where
  "create_patient uuid4 g study_subject_id patient_id gender living_status =
     (let ident = \<lparr>ident_system = PATIENT_ID_SYSTEM, ident_value = lower patient_id\<rparr>;
          g1 = g\<lparr>patients_uuid := (patients_uuid g)(study_subject_id \<mapsto> uuid4 (uuid4_calls g)),
                 uuid4_calls := Suc (uuid4_calls g)\<rparr>
      in py_bind (py_getitem (patients_uuid g1) study_subject_id) (\<lambda>pid.
           Inr (\<lparr>pat_identifier = [ident],
                 pat_gender = lower gender,
                 deceasedBoolean = living_status,
                 pat_id = pid\<rparr>, g1)))"

definition create_research_subject ::
  "(nat \<Rightarrow> string) \<Rightarrow> globals \<Rightarrow> string \<Rightarrow> error + (research_subject \<times> globals)" where
  "create_research_subject uuid4 g study_patient_id =
     py_bind (py_getitem (patients_uuid g) study_patient_id) (\<lambda>pid.
       let pat_ref = \<lparr>reference = ''Patient/'' @ pid\<rparr>;
           study_ref = \<lparr>reference = ''ResearchStudy/'' @ research_study_id g\<rparr>;
           g1 = g\<lparr>research_subject_uuid :=
                    (research_subject_uuid g)(study_patient_id \<mapsto> uuid4 (uuid4_calls g)),
                  uuid4_calls := Suc (uuid4_calls g)\<rparr>;
           ident = \<lparr>ident_system = STUDY_PATIENT_ID_SYSTEM, ident_value = study_patient_id\<rparr>
       in py_bind (py_getitem (research_subject_uuid g1) study_patient_id) (\<lambda>rid.
            Inr (\<lparr>rs_status = ''active'',
                  rs_subject = pat_ref,
                  rs_study = study_ref,
                  rs_identifier = [ident],
                  rs_id = rid\<rparr>, g1)))"

definition create_condition ::
  "(nat \<Rightarrow> string) \<Rightarrow> globals \<Rightarrow> string \<Rightarrow> string \<Rightarrow> string
     \<Rightarrow> error + (condition \<times> globals)" where
  "create_condition uuid4 g study_subject_id icd_code onset_age =
     py_bind (py_float onset_age) (\<lambda>v.
       let a = \<lparr>age_value = v, age_unit = ''a''\<rparr>
       in py_bind (py_getitem (patients_uuid g) study_subject_id) (\<lambda>pid.
            let g1 = g\<lparr>condition_uuid :=
                         (condition_uuid g)(study_subject_id \<mapsto> uuid4 (uuid4_calls g)),
                       uuid4_calls := Suc (uuid4_calls g)\<rparr>
            in py_bind (py_getitem (condition_uuid g1) study_subject_id) (\<lambda>cid.
                 Inr (\<lparr>clinicalStatus =
                         \<lparr>coding =
                            [\<lparr>coding_system =
                                ''http://terminology.hl7.org/CodeSystem/condition-clinical'',
                              coding_code = ''active'',
                              coding_display = Some ''Active''\<rparr>]\<rparr>,
                       cond_subject = \<lparr>reference = ''Patient/'' @ pid\<rparr>,
                       onsetAge = a,
                       cond_id = cid,
                       cond_code =
                         \<lparr>coding =
                            [\<lparr>coding_system = ''http://fhir.de/CodeSystem/bfarm/icd-10-gm'',
                              coding_code = icd_code,
                              coding_display = get_label icd_code\<rparr>]\<rparr>\<rparr>, g1))))"

definition create_procedure ::
  "(nat \<Rightarrow> string) \<Rightarrow> globals \<Rightarrow> string \<Rightarrow> error + (procedure \<times> globals)" where
  "create_procedure uuid4 g study_subject_id =
     py_bind (py_getitem (patients_uuid g) study_subject_id) (\<lambda>pid.
       let g1 = g\<lparr>procedure_uuid :=
                    (procedure_uuid g)(study_subject_id \<mapsto> uuid4 (uuid4_calls g)),
                  uuid4_calls := Suc (uuid4_calls g)\<rparr>
       in py_bind (py_getitem (procedure_uuid g1) study_subject_id) (\<lambda>prid.
            Inr (\<lparr>proc_status = ''completed'',
                  proc_subject = \<lparr>reference = ''Patient/'' @ pid\<rparr>,
                  proc_id = prid,
                  proc_code =
                    \<lparr>coding =
                       [\<lparr>coding_system = ''http://snomed.info/sct'',
                         coding_code = ''1287742003'',
                         coding_display = Some ''Radiotherapy (procedure)''\<rparr>]\<rparr>\<rparr>, g1)))"

subsection \<open>One row, one bundle\<close>

text \<open>
  The request of a ResearchStudy entry that \<^verbatim>\<open>create_bundle\<close> builds as
  \<^verbatim>\<open>research_study_request\<close> and then never reads.
\<close>

definition research_study_request :: bundle_entry_request where
  "research_study_request =
     \<lparr>req_url = ''ResearchStudy'', req_method = ''POST'',
      ifNoneExist = Some (''identifier='' @ STUDY_ID_SYSTEM @ ''|'' @ STUDY_ID_VALUE)\<rparr>"

text \<open>
  The Procedure entry, built only for a row with radio therapy; without it
  \<^verbatim>\<open>procedure_entry\<close> stays \<^verbatim>\<open>None\<close>.
\<close>

definition make_procedure_entry ::
  "(nat \<Rightarrow> string) \<Rightarrow> globals \<Rightarrow> string \<Rightarrow> bool
     \<Rightarrow> error + (bundle_entry option \<times> globals)" where
  "make_procedure_entry uuid4 g study_subject_id radio_therapy =
     (if radio_therapy then
        py_bind (create_procedure uuid4 g study_subject_id) (\<lambda>(proc, g1).
        py_bind (py_getitem (procedure_uuid g1) study_subject_id) (\<lambda>prid.
          Inr (Some \<lparr>resource = ProcedureR proc,
                     request = \<lparr>req_url = ''Procedure'', req_method = ''POST'',
                                ifNoneExist = None\<rparr>,
                     fullUrl = ''Procedure/'' @ prid\<rparr>, g1)))
      else Inr (None, g))"

definition create_bundle ::
  "(nat \<Rightarrow> string) \<Rightarrow> globals \<Rightarrow> string list
     \<Rightarrow> error + (fhir_bundle \<times> string \<times> globals)" where
  "create_bundle uuid4 g data_values =
     py_bind (py_index data_values 1) (\<lambda>study_subject_id.
     py_bind (py_index data_values 3) (\<lambda>onset_age.
     py_bind (py_index data_values 24) (\<lambda>icd_10_code.
     py_bind (py_index data_values 35) (\<lambda>living.
     py_bind (py_index data_values 36) (\<lambda>secondary_pat_id.
     py_bind (py_index data_values 46) (\<lambda>radio.
     py_bind (py_index data_values 50) (\<lambda>gender.
       let is_alive = (if living = ''0:LIVING'' then True else False);
           radio_therapy = (if radio = ''Yes'' then True else False);
           pat_entry_request =
             \<lparr>req_url = ''Patient'', req_method = ''POST'',
              ifNoneExist =
                Some (''identifier='' @ PATIENT_ID_SYSTEM @ ''|'' @ lower secondary_pat_id)\<rparr>;
           unused = research_study_request;
           research_subject_request =
             \<lparr>req_url = ''ResearchSubject'', req_method = ''POST'',
              ifNoneExist =
                Some (''identifier='' @ STUDY_PATIENT_ID_SYSTEM @ ''|'' @ study_subject_id)\<rparr>
       in
     py_bind (create_patient uuid4 g study_subject_id secondary_pat_id gender is_alive)
       (\<lambda>(pat, g1).
     py_bind (create_research_subject uuid4 g1 study_subject_id) (\<lambda>(research_subj, g2).
     py_bind (create_condition uuid4 g2 study_subject_id icd_10_code onset_age)
       (\<lambda>(cond, g3).
     py_bind (make_procedure_entry uuid4 g3 study_subject_id radio_therapy)
       (\<lambda>(procedure_entry, g4).
     py_bind (py_getitem (patients_uuid g4) study_subject_id) (\<lambda>pid.
     py_bind (py_getitem (research_subject_uuid g4) study_subject_id) (\<lambda>rid.
     py_bind (py_getitem (condition_uuid g4) study_subject_id) (\<lambda>cid.
       let pat_entry =
             \<lparr>resource = PatientR pat, request = pat_entry_request,
              fullUrl = ''Patient/'' @ pid\<rparr>;
           research_subject_entry =
             \<lparr>resource = ResearchSubjectR research_subj,
              request = research_subject_request,
              fullUrl = ''ResearchSubject/'' @ rid\<rparr>;
           condition_entry =
             \<lparr>resource = ConditionR cond,
              request = \<lparr>req_url = ''Condition'', req_method = ''POST'',
                         ifNoneExist = None\<rparr>,
              fullUrl = ''Condition/'' @ cid\<rparr>
       in Inr (\<lparr>bundle_type = ''transaction'',
                 entry = [pat_entry, research_subject_entry, condition_entry]
                   @ (case procedure_entry of None \<Rightarrow> [] | Some e \<Rightarrow> [e])\<rparr>,
               study_subject_id, g4)))))))))))))))"

subsection \<open>The main block\<close>

text \<open>
  What a run writes below \<^verbatim>\<open>bundles/\<close>, in order: the file name handed to
  \<^verbatim>\<open>joinpath\<close> and the resource that is serialised into it. Reading the data
  file, the arguments and the file system are outside the model: the run takes the
  value of \<^verbatim>\<open>--research-study-id\<close> (\<open>None\<close> when the option is not given) and the
  lines of the data file.
\<close>

datatype written = StudyFile string research_study | BundleFile string fhir_bundle

text \<open>
  The loop over the data lines. An exception of \<^verbatim>\<open>create_bundle\<close> is caught
  nowhere: it ends the run, after the files of the rows before.
\<close>

fun write_bundles ::
  "(nat \<Rightarrow> string) \<Rightarrow> globals \<Rightarrow> string list \<Rightarrow> written list \<times> error option" where
  "write_bundles uuid4 g [] = ([], None)"
| "write_bundles uuid4 g (line # lines) =
     (case create_bundle uuid4 g (split_tab line) of
        Inl e \<Rightarrow> ([], Some e)
      | Inr (b, subject_id, g') \<Rightarrow>
          (case write_bundles uuid4 g' lines of
             (outs, r) \<Rightarrow> (BundleFile (subject_id @ ''.json'') b # outs, r)))"

text \<open>
  The branch of a run without a study id: a fresh id, the ResearchStudy written to
  \<^verbatim>\<open>study.json\<close>, and \<^verbatim>\<open>exit(0)\<close>.
\<close>

definition write_study :: "(nat \<Rightarrow> string) \<Rightarrow> written list \<times> error option" where
  "write_study uuid4 =
     ([StudyFile ''study.json''
         (create_research_study
            \<lparr>research_study_id = uuid4 0, patients_uuid = Map.empty,
             research_subject_uuid = Map.empty, condition_uuid = Map.empty,
             procedure_uuid = Map.empty, uuid4_calls = 1\<rparr>)], None)"

text \<open>
  \<^verbatim>\<open>if not args.research_study_id\<close> holds for an option that is not given
  (\<^verbatim>\<open>None\<close>) and for one given as the empty string.
\<close>

definition main ::
  "(nat \<Rightarrow> string) \<Rightarrow> string option \<Rightarrow> string list \<Rightarrow> written list \<times> error option" where
  "main uuid4 arg lines =
     (case arg of
        None \<Rightarrow> write_study uuid4
      | Some rsid \<Rightarrow>
          if rsid = [] then write_study uuid4
          else
            write_bundles uuid4
              \<lparr>research_study_id = rsid, patients_uuid = Map.empty,
               research_subject_uuid = Map.empty, condition_uuid = Map.empty,
               procedure_uuid = Map.empty, uuid4_calls = 0\<rparr>
              (drop 1 lines))"

subsection \<open>What the properties speak about\<close>

text \<open>
  A row that \<^verbatim>\<open>create_bundle\<close> can process: it has the seven columns that are
  read, the last of them at index 50, and an onset age that \<^verbatim>\<open>float\<close> accepts.
\<close>

definition valid_row :: "string list \<Rightarrow> bool" where
  "valid_row r =
     (50 < length r \<and> (case py_float (r ! 3) of Inl _ \<Rightarrow> False | Inr _ \<Rightarrow> True))"


text \<open>The id of a resource, and the references it holds to other resources.\<close>

fun resource_id :: "resource \<Rightarrow> string" where
  "resource_id (PatientR p) = pat_id p"
| "resource_id (ResearchSubjectR s) = rs_id s"
| "resource_id (ConditionR c) = cond_id c"
| "resource_id (ProcedureR p) = proc_id p"

fun person_references :: "resource \<Rightarrow> string list" where
  "person_references (PatientR p) = []"
| "person_references (ResearchSubjectR s) = [reference (rs_subject s)]"
| "person_references (ConditionR c) = [reference (cond_subject c)]"
| "person_references (ProcedureR p) = [reference (proc_subject p)]"

fun study_references :: "resource \<Rightarrow> string list" where
  "study_references (ResearchSubjectR s) = [reference (rs_study s)]"
| "study_references _ = []"

definition full_urls :: "fhir_bundle \<Rightarrow> string list" where
  "full_urls b = map fullUrl (entry b)"

definition bundle_references :: "fhir_bundle \<Rightarrow> string list" where
  "bundle_references b =
     concat (map (\<lambda>e. person_references (resource e) @ study_references (resource e)) (entry b))"


text \<open>The ids of the resources that a run has written, in order.\<close>

fun written_ids :: "written \<Rightarrow> string list" where
  "written_ids (StudyFile _ s) = [study_id s]"
| "written_ids (BundleFile _ b) = map (\<lambda>e. resource_id (resource e)) (entry b)"

text \<open>The bundle of a result of \<^verbatim>\<open>create_bundle\<close>, when there is one.\<close>

definition bundle_of :: "error + (fhir_bundle \<times> string \<times> globals) \<Rightarrow> fhir_bundle option" where
  "bundle_of r = (case r of Inl _ \<Rightarrow> None | Inr (b, _, _) \<Rightarrow> Some b)"

text \<open>Every reference of the bundle is the \<open>fullUrl\<close> of one of its entries.\<close>

definition no_dangling :: "fhir_bundle \<Rightarrow> bool" where
  "no_dangling b = list_all (\<lambda>u. u \<in> set (full_urls b)) (bundle_references b)"

text \<open>The resource type and the conditional-create guard of each entry, in order.\<close>

definition entry_guards :: "fhir_bundle \<Rightarrow> (string \<times> string option) list" where
  "entry_guards b = map (\<lambda>e. (resource_type (resource e), ifNoneExist (request e))) (entry b)"

text \<open>
  Some entry of the bundle is a request to create a ResearchStudy, or carries the
  guard of \<open>research_study_request\<close>.
\<close>

definition carries_study_guard :: "fhir_bundle \<Rightarrow> bool" where
  "carries_study_guard b =
     list_ex (\<lambda>e. req_url (request e) = req_url research_study_request
                \<or> ifNoneExist (request e) = ifNoneExist research_study_request) (entry b)"



text \<open>
  Of a file that a run has written: whether it holds the study, its name, and the
  study references of the resources in it.
\<close>

fun is_study_file :: "written \<Rightarrow> bool" where
  "is_study_file (StudyFile _ _) = True"
| "is_study_file (BundleFile _ _) = False"

fun written_name :: "written \<Rightarrow> string" where
  "written_name (StudyFile n _) = n"
| "written_name (BundleFile n _) = n"

fun written_study_references :: "written \<Rightarrow> string list" where
  "written_study_references (StudyFile _ _) = []"
| "written_study_references (BundleFile _ b) =
     concat (map (\<lambda>e. study_references (resource e)) (entry b))"

text \<open>All the ids of the resources of a run, in the order in which they are written.\<close>

definition run_ids :: "written list \<times> error option \<Rightarrow> string list" where
  "run_ids run = concat (map written_ids (fst run))"

text \<open>The data lines of a file, each of them a row that can be processed.\<close>

definition valid_lines :: "string list \<Rightarrow> bool" where
  "valid_lines lines = list_all (\<lambda>l. valid_row (split_tab l)) (drop 1 lines)"

subsection \<open>Sample data\<close>

text \<open>
  A row in the layout of the data file, with the onset age, the ICD-10 code, the
  survival status and the radiation therapy flag left open, a generator of ids that
  never repeats itself, and the globals at the start of a run for the study
  \<open>study-1\<close>.
\<close>

definition sample_row :: "string \<Rightarrow> string \<Rightarrow> string \<Rightarrow> string \<Rightarrow> string list" where
  "sample_row onset icd living radio =
     [''paad_tcga_pan_can_atlas_2018'', ''TCGA-2J-AAB1'', ''TCGA-2J-AAB1-01'', onset]
     @ replicate 20 ''NA'' @ [icd] @ replicate 10 ''NA'' @ [living, ''TCGA-ABC'']
     @ replicate 9 ''NA'' @ [radio] @ replicate 3 ''NA'' @ [''Male'', ''NA'']"

definition sample_uuid4 :: "nat \<Rightarrow> string" where
  "sample_uuid4 n = ''uuid-'' @ replicate n (CHR ''i'')"

definition sample_globals :: globals where
  "sample_globals =
     \<lparr>research_study_id = ''study-1'', patients_uuid = Map.empty,
      research_subject_uuid = Map.empty, condition_uuid = Map.empty,
      procedure_uuid = Map.empty, uuid4_calls = 0\<rparr>"


definition sample_header :: string where
  "sample_header = ''STUDY_ID'' @ [CHR 0x09] @ ''PATIENT_ID'' @ [CHR 0x0A]"

section \<open>Properties\<close>

subsection \<open>Auxiliary facts\<close>

lemmas builder_defs =
  create_bundle_def create_patient_def create_research_subject_def create_condition_def
  create_procedure_def make_procedure_entry_def py_bind_def py_getitem_def py_index_def


lemma py_float_63: "py_float ''63.5'' = Inr (Finite (127 / 2))"
  by code_simp


lemma sample_row_fields:
  "length (sample_row onset icd living radio) = 52"
  "sample_row onset icd living radio ! 1 = ''TCGA-2J-AAB1''"
  "sample_row onset icd living radio ! Suc 0 = ''TCGA-2J-AAB1''"
  "sample_row onset icd living radio ! 3 = onset"
  "sample_row onset icd living radio ! 24 = icd"
  "sample_row onset icd living radio ! 35 = living"
  "sample_row onset icd living radio ! 36 = ''TCGA-ABC''"
  "sample_row onset icd living radio ! 46 = radio"
  "sample_row onset icd living radio ! 50 = ''Male''"
  by (simp_all add: sample_row_def nth_append)

lemma valid_sample_row: "valid_row (sample_row ''63.5'' icd living radio)"
  by (simp add: valid_row_def sample_row_fields py_float_63)

lemma inj_sample_uuid4: "inj sample_uuid4"
proof (rule injI)
  fix m n
  assume "sample_uuid4 m = sample_uuid4 n"
  then have "length (sample_uuid4 m) = length (sample_uuid4 n)"
    by simp
  then show "m = n"
    by (simp add: sample_uuid4_def)
qed

lemma create_bundle_short: "length r \<le> 50 \<Longrightarrow> create_bundle uuid4 g r = Inl IndexError"
  by (simp add: create_bundle_def py_bind_def py_index_def)

lemma create_bundle_bad_age:
  "50 < length r \<Longrightarrow> py_float (r ! 3) = Inl e \<Longrightarrow> create_bundle uuid4 g r = Inl e"
  by (simp add: builder_defs Let_def)

text \<open>The bundle of a row that can be processed, written out.\<close>

lemma create_bundle_ok:
  assumes "50 < length r" and "py_float (r ! 3) = Inr v"
  shows "create_bundle uuid4 g r =
    Inr (\<lparr>bundle_type = ''transaction'',
          entry =
            [\<lparr>resource = PatientR
                 \<lparr>pat_identifier =
                    [\<lparr>ident_system = PATIENT_ID_SYSTEM, ident_value = lower (r ! 36)\<rparr>],
                  pat_gender = lower (r ! 50),
                  deceasedBoolean = (r ! 35 = ''0:LIVING''),
                  pat_id = uuid4 (uuid4_calls g)\<rparr>,
               request =
                 \<lparr>req_url = ''Patient'', req_method = ''POST'',
                  ifNoneExist =
                    Some (''identifier='' @ PATIENT_ID_SYSTEM @ ''|'' @ lower (r ! 36))\<rparr>,
               fullUrl = ''Patient/'' @ uuid4 (uuid4_calls g)\<rparr>,
             \<lparr>resource = ResearchSubjectR
                 \<lparr>rs_status = ''active'',
                  rs_subject = \<lparr>reference = ''Patient/'' @ uuid4 (uuid4_calls g)\<rparr>,
                  rs_study = \<lparr>reference = ''ResearchStudy/'' @ research_study_id g\<rparr>,
                  rs_identifier =
                    [\<lparr>ident_system = STUDY_PATIENT_ID_SYSTEM, ident_value = r ! 1\<rparr>],
                  rs_id = uuid4 (uuid4_calls g + 1)\<rparr>,
               request =
                 \<lparr>req_url = ''ResearchSubject'', req_method = ''POST'',
                  ifNoneExist =
                    Some (''identifier='' @ STUDY_PATIENT_ID_SYSTEM @ ''|'' @ r ! 1)\<rparr>,
               fullUrl = ''ResearchSubject/'' @ uuid4 (uuid4_calls g + 1)\<rparr>,
             \<lparr>resource = ConditionR
                 \<lparr>clinicalStatus =
                    \<lparr>coding =
                       [\<lparr>coding_system =
                           ''http://terminology.hl7.org/CodeSystem/condition-clinical'',
                         coding_code = ''active'',
                         coding_display = Some ''Active''\<rparr>]\<rparr>,
                  cond_subject = \<lparr>reference = ''Patient/'' @ uuid4 (uuid4_calls g)\<rparr>,
                  onsetAge = \<lparr>age_value = v, age_unit = ''a''\<rparr>,
                  cond_id = uuid4 (uuid4_calls g + 2),
                  cond_code =
                    \<lparr>coding =
                       [\<lparr>coding_system = ''http://fhir.de/CodeSystem/bfarm/icd-10-gm'',
                         coding_code = r ! 24,
                         coding_display = get_label (r ! 24)\<rparr>]\<rparr>\<rparr>,
               request =
                 \<lparr>req_url = ''Condition'', req_method = ''POST'', ifNoneExist = None\<rparr>,
               fullUrl = ''Condition/'' @ uuid4 (uuid4_calls g + 2)\<rparr>]
            @ (if r ! 46 = ''Yes'' then
                 [\<lparr>resource = ProcedureR
                      \<lparr>proc_status = ''completed'',
                       proc_subject = \<lparr>reference = ''Patient/'' @ uuid4 (uuid4_calls g)\<rparr>,
                       proc_id = uuid4 (uuid4_calls g + 3),
                       proc_code =
                         \<lparr>coding =
                            [\<lparr>coding_system = ''http://snomed.info/sct'',
                              coding_code = ''1287742003'',
                              coding_display = Some ''Radiotherapy (procedure)''\<rparr>]\<rparr>\<rparr>,
                    request =
                      \<lparr>req_url = ''Procedure'', req_method = ''POST'', ifNoneExist = None\<rparr>,
                    fullUrl = ''Procedure/'' @ uuid4 (uuid4_calls g + 3)\<rparr>]
               else [])\<rparr>,
         r ! 1,
         g\<lparr>patients_uuid := (patients_uuid g)(r ! 1 \<mapsto> uuid4 (uuid4_calls g)),
           research_subject_uuid :=
             (research_subject_uuid g)(r ! 1 \<mapsto> uuid4 (uuid4_calls g + 1)),
           condition_uuid := (condition_uuid g)(r ! 1 \<mapsto> uuid4 (uuid4_calls g + 2)),
           procedure_uuid :=
             (if r ! 46 = ''Yes''
              then (procedure_uuid g)(r ! 1 \<mapsto> uuid4 (uuid4_calls g + 3))
              else procedure_uuid g),
           uuid4_calls := uuid4_calls g + (if r ! 46 = ''Yes'' then 4 else 3)\<rparr>)"
proof -
  have sucs: "\<And>n::nat. n + 2 = Suc (Suc n)" "\<And>n::nat. n + 3 = Suc (Suc (Suc n))"
    "\<And>n::nat. n + 4 = Suc (Suc (Suc (Suc n)))"
    by simp_all
  show ?thesis
    using assms by (simp add: builder_defs Let_def sucs)
qed

lemma create_bundle_Inr_valid:
  assumes "create_bundle uuid4 g r = Inr x"
  shows "50 < length r \<and> (\<exists>v. py_float (r ! 3) = Inr v)"
proof -
  have len: "50 < length r"
    using assms create_bundle_short [of r uuid4 g] by (cases "length r \<le> 50") auto
  moreover have "\<exists>v. py_float (r ! 3) = Inr v"
    using assms create_bundle_bad_age [OF len, of _ uuid4 g] by (cases "py_float (r ! 3)") auto
  ultimately show ?thesis
    by simp
qed

lemma valid_rowD: "valid_row r \<Longrightarrow> 50 < length r \<and> (\<exists>v. py_float (r ! 3) = Inr v)"
  by (auto simp: valid_row_def split: sum.splits)

lemma create_bundle_returns:
  "valid_row r \<Longrightarrow> \<exists>b g'. create_bundle uuid4 g r = Inr (b, r ! 1, g')"
  using valid_rowD [of r] by (auto simp: create_bundle_ok)

lemma create_patient_returns:
  "\<exists>p g1. create_patient uuid4 g sid pid gender living = Inr (p, g1)"
  by (simp add: create_patient_def py_bind_def py_getitem_def Let_def)

lemmas sample_bundle_eq =
  create_bundle_ok [where r = "sample_row ''63.5'' ''C25.0'' ''0:LIVING'' ''Yes''"
    and v = "Finite (127 / 2)" and ?uuid4.0 = sample_uuid4 and g = sample_globals]

lemmas system_defs =
  PATIENT_ID_SYSTEM_def STUDY_PATIENT_ID_SYSTEM_def STUDY_ID_SYSTEM_def STUDY_ID_VALUE_def

lemma lower_TCGA: "lower ''TCGA-ABC'' = ''tcga-abc''"
  by code_simp

subsection \<open>The code lookup\<close>



subsection \<open>The entries of a bundle\<close>



subsection \<open>Cross-references\<close>

text \<open>
  C1, as the specification states it: every reference inside the bundle of a row is the
  \<open>fullUrl\<close> of an entry of that bundle. It fails on the sample row: the ResearchSubject
  refers to \<open>ResearchStudy/study-1\<close>, and the bundle has no ResearchStudy entry.
\<close>

theorem study_reference_dangles:
  "map_option no_dangling
     (bundle_of (create_bundle sample_uuid4 sample_globals
        (sample_row ''63.5'' ''C25.0'' ''0:LIVING'' ''Yes''))) = Some False"
  using sample_bundle_eq
  by (simp add: py_float_63 sample_row_fields bundle_of_def sample_globals_def
      sample_uuid4_def no_dangling_def full_urls_def bundle_references_def)

text \<open>
  C1, amended: in the bundle of every row that \<^verbatim>\<open>create_bundle\<close> processes, the first
  entry is the Patient, and every reference to the person (the subject of the
  ResearchSubject, of the Condition and of the Procedure when there is one) is the
  \<open>fullUrl\<close> of that entry. The study reference of the ResearchSubject is
  \<open>ResearchStudy/\<close> followed by the study id of the run: it points outside the bundle,
  to no entry of it.
\<close>

theorem person_references_resolve:
  assumes "create_bundle uuid4 g r = Inr (b, sid, g')"
  shows "resource_type (resource (entry b ! 0)) = ''Patient''
    \<and> (\<forall>e \<in> set (entry b). \<forall>u \<in> set (person_references (resource e)).
          u = fullUrl (entry b ! 0))
    \<and> (\<forall>e \<in> set (entry b). \<forall>u \<in> set (study_references (resource e)).
          u = ''ResearchStudy/'' @ research_study_id g \<and> u \<notin> set (full_urls b))"
proof -
  from assms obtain v where len: "50 < length r" and age: "py_float (r ! 3) = Inr v"
    using create_bundle_Inr_valid by blast
  show ?thesis
    using assms unfolding create_bundle_ok [OF len age] by (auto simp: full_urls_def)
qed

theorem person_references_resolve_witness:
  "\<exists>b sid g'. create_bundle sample_uuid4 sample_globals
       (sample_row ''63.5'' ''C25.0'' ''0:LIVING'' ''Yes'') = Inr (b, sid, g')
     \<and> resource_type (resource (entry b ! 0)) = ''Patient''
     \<and> (\<forall>e \<in> set (entry b). \<forall>u \<in> set (person_references (resource e)).
          u = fullUrl (entry b ! 0))
     \<and> (\<forall>e \<in> set (entry b). \<forall>u \<in> set (study_references (resource e)).
          u = ''ResearchStudy/study-1'' \<and> u \<notin> set (full_urls b))"
proof -
  obtain b g' where eq: "create_bundle sample_uuid4 sample_globals
       (sample_row ''63.5'' ''C25.0'' ''0:LIVING'' ''Yes'')
     = Inr (b, sample_row ''63.5'' ''C25.0'' ''0:LIVING'' ''Yes'' ! 1, g')"
    using create_bundle_returns [OF valid_sample_row] by blast
  from person_references_resolve [OF eq] eq show ?thesis
    by (simp add: sample_globals_def)
qed

subsection \<open>Conditional-create guards\<close>

text \<open>
  C3, as the specification states it, has a Study transaction entry that carries a
  guard. The bundle of the sample row has no such entry: none of its requests creates
  a ResearchStudy, and none carries the guard of the study.
\<close>

theorem no_study_entry_in_bundle:
  "map_option carries_study_guard
     (bundle_of (create_bundle sample_uuid4 sample_globals
        (sample_row ''63.5'' ''C25.0'' ''0:LIVING'' ''Yes''))) = Some False"
  using sample_bundle_eq
  by (simp add: py_float_63 sample_row_fields bundle_of_def sample_globals_def
      sample_uuid4_def carries_study_guard_def research_study_request_def
      system_defs lower_TCGA)

text \<open>
  C3, amended: in the bundle of every row that \<^verbatim>\<open>create_bundle\<close> processes, the
  Patient entry carries the guard \<open>identifier=<PATIENT_ID_SYSTEM>|<k>\<close> with \<open>k\<close> the
  secondary patient id in lower case (\<open>tcga-abc\<close> for \<open>TCGA-ABC\<close>), the ResearchSubject
  entry carries \<open>identifier=<STUDY_PATIENT_ID_SYSTEM>|<s>\<close> with \<open>s\<close> the study subject
  id as it is, and the Condition and Procedure entries carry no guard. The request of
  the study, with the guard \<open>identifier=<STUDY_ID_SYSTEM>|<STUDY_ID_VALUE>\<close>, is built
  for every row and put into no entry of the bundle.
\<close>

theorem conditional_create_guards:
  assumes "create_bundle uuid4 g r = Inr (b, sid, g')"
  shows "entry_guards b =
      [(''Patient'', Some (''identifier='' @ PATIENT_ID_SYSTEM @ ''|'' @ lower (r ! 36))),
       (''ResearchSubject'', Some (''identifier='' @ STUDY_PATIENT_ID_SYSTEM @ ''|'' @ r ! 1)),
       (''Condition'', None)]
      @ (if r ! 46 = ''Yes'' then [(''Procedure'', None)] else [])
    \<and> (r ! 36 = ''TCGA-ABC'' \<longrightarrow>
         ifNoneExist (request (entry b ! 0))
           = Some (''identifier='' @ PATIENT_ID_SYSTEM @ ''|tcga-abc''))
    \<and> \<not> carries_study_guard b
    \<and> ifNoneExist research_study_request
        = Some (''identifier='' @ STUDY_ID_SYSTEM @ ''|'' @ STUDY_ID_VALUE)"
proof -
  from assms obtain v where len: "50 < length r" and age: "py_float (r ! 3) = Inr v"
    using create_bundle_Inr_valid by blast
  show ?thesis
    using assms unfolding create_bundle_ok [OF len age]
    by (auto simp: entry_guards_def carries_study_guard_def research_study_request_def
        lower_TCGA system_defs)
qed

theorem conditional_create_guards_witness:
  "\<exists>b sid g'. create_bundle sample_uuid4 sample_globals
       (sample_row ''63.5'' ''C25.0'' ''0:LIVING'' ''No'') = Inr (b, sid, g')
     \<and> entry_guards b =
        [(''Patient'', Some ''identifier=https://www.gmds.de/pk-nachwuchs/patient|tcga-abc''),
         (''ResearchSubject'',
            Some ''identifier=https://www.cbioportal.org/patient|TCGA-2J-AAB1''),
         (''Condition'', None)]
     \<and> \<not> carries_study_guard b"
proof -
  obtain b g' where eq: "create_bundle sample_uuid4 sample_globals
       (sample_row ''63.5'' ''C25.0'' ''0:LIVING'' ''No'')
     = Inr (b, sample_row ''63.5'' ''C25.0'' ''0:LIVING'' ''No'' ! 1, g')"
    using create_bundle_returns [OF valid_sample_row] by blast
  from conditional_create_guards [OF eq] eq show ?thesis
    by (simp add: sample_row_fields system_defs lower_TCGA)
qed

subsection \<open>The two flags of a row\<close>



text \<open>
  C10: \<^verbatim>\<open>create_patient\<close> stores the living status it is given as \<open>deceasedBoolean\<close>,
  so the Patient of a bundle has \<open>deceasedBoolean\<close> true exactly when the survival
  status column of the row is \<open>0:LIVING\<close>, and false for every other value.
\<close>

theorem deceasedBoolean_is_living_status:
  "(create_patient uuid4 g sid pid gender living = Inr (p, g1) \<longrightarrow> deceasedBoolean p = living)
   \<and> (create_bundle uuid4 g r = Inr (b, s, g') \<longrightarrow>
        (\<exists>q. resource (entry b ! 0) = PatientR q
           \<and> deceasedBoolean q = (r ! 35 = ''0:LIVING'')))"
proof -
  have one: "create_patient uuid4 g sid pid gender living = Inr (p, g1)
      \<longrightarrow> deceasedBoolean p = living"
    by (auto simp: create_patient_def py_bind_def py_getitem_def Let_def)
  have two: "create_bundle uuid4 g r = Inr (b, s, g') \<longrightarrow>
        (\<exists>q. resource (entry b ! 0) = PatientR q \<and> deceasedBoolean q = (r ! 35 = ''0:LIVING''))"
  proof
    assume a: "create_bundle uuid4 g r = Inr (b, s, g')"
    then obtain v where len: "50 < length r" and age: "py_float (r ! 3) = Inr v"
      using create_bundle_Inr_valid by blast
    show "\<exists>q. resource (entry b ! 0) = PatientR q \<and> deceasedBoolean q = (r ! 35 = ''0:LIVING'')"
      using a unfolding create_bundle_ok [OF len age] by auto
  qed
  show ?thesis
    using one two by simp
qed

theorem deceasedBoolean_is_living_status_witness:
  "(\<exists>p g1. create_patient sample_uuid4 sample_globals ''TCGA-2J-AAB1'' ''TCGA-ABC'' ''Male'' True
        = Inr (p, g1) \<and> deceasedBoolean p)
   \<and> (\<exists>b s g' q. create_bundle sample_uuid4 sample_globals
          (sample_row ''63.5'' ''C25.0'' ''1:DECEASED'' ''No'') = Inr (b, s, g')
        \<and> resource (entry b ! 0) = PatientR q \<and> \<not> deceasedBoolean q)"
proof -
  obtain p g1 where a: "create_patient sample_uuid4 sample_globals ''TCGA-2J-AAB1'' ''TCGA-ABC''
      ''Male'' True = Inr (p, g1)"
    using create_patient_returns by blast
  obtain b g' where c: "create_bundle sample_uuid4 sample_globals
       (sample_row ''63.5'' ''C25.0'' ''1:DECEASED'' ''No'')
     = Inr (b, sample_row ''63.5'' ''C25.0'' ''1:DECEASED'' ''No'' ! 1, g')"
    using create_bundle_returns [OF valid_sample_row] by blast
  from deceasedBoolean_is_living_status [where ?uuid4.0 = sample_uuid4 and g = sample_globals
      and sid = "''TCGA-2J-AAB1''" and pid = "''TCGA-ABC''" and gender = "''Male''"
      and living = True and p = p and ?g1.0 = g1
      and r = "sample_row ''63.5'' ''C25.0'' ''1:DECEASED'' ''No''" and b = b
      and s = "sample_row ''63.5'' ''C25.0'' ''1:DECEASED'' ''No'' ! 1" and g' = g'] a c
  show ?thesis
    by (auto simp: sample_row_fields)
qed

subsection \<open>Auxiliary facts on numbers and lines\<close>


















subsection \<open>The onset age\<close>




subsection \<open>An onset age that is no number\<close>



end
